theory Spec2Isabelle
  imports Complex_Main "HOL-Library.Sublist"
begin

section \<open>Data model\<close>

text \<open>
  The store is a relational database reached through Prisma. A table is modelled as
  the list of its rows in the order in which the store returns them, a nullable
  column as an option, a Decimal column (read with \<^verbatim>\<open>float(...)\<close>) as an exact
  real number: the model computes sums and products exactly and does not follow
  the binary rounding of Python floats.

  The request records are the schemas of \<^verbatim>\<open>models/schemas.py\<close>, field by field.
\<close>

type_synonym datetime = "int \<times> int \<times> int \<times> int"
  \<comment> \<open>year, month, day, second of the day\<close>

fun dt_less :: "datetime \<Rightarrow> datetime \<Rightarrow> bool" where
  "dt_less (y1, m1, d1, t1) (y2, m2, d2, t2) =
     (y1 < y2 \<or> (y1 = y2 \<and> (m1 < m2 \<or> (m1 = m2 \<and> (d1 < d2 \<or> (d1 = d2 \<and> t1 < t2))))))"

definition dt_less_eq :: "datetime \<Rightarrow> datetime \<Rightarrow> bool" where
  "dt_less_eq a b = (a = b \<or> dt_less a b)"

record user_response =
  u_id :: string
  u_name :: string
  u_role :: string

record product =
  p_id :: int
  p_product_name :: string
  p_category :: string
  p_cost_price :: real
  p_quantity :: int
  p_added_by :: string

record sale =
  s_id :: int
  s_invoice_no :: "string option"
  s_customer_name :: string
  s_customer_address :: "string option"
  s_customer_phone :: "string option"
  s_product_name :: string
  s_category :: string
  s_quantity :: int
  s_cost_price :: real
  s_sale_price :: real
  s_entry_date :: "string option"
  s_payment_type :: string
  s_advance_amount :: "real option"
  s_sold_by :: string
  s_edited :: bool
  s_created_at :: datetime

record expense =
  e_id :: int
  e_invoice_no :: "string option"
  e_material_name :: string
  e_amount :: real
  e_payment_method :: string
  e_advance_amount :: "real option"
  e_entry_date :: "string option"
  e_added_by :: string
  e_used :: bool
  e_edited :: bool
  e_created_at :: datetime

record db =
  inventory :: "product list"
  sales :: "sale list"
  expenses :: "expense list"
  next_sale_id :: int
  next_expense_id :: int
  invoice_seq :: "nat option"
  unix_time :: nat
  now :: datetime

text \<open>
  \<open>invoice_seq\<close> is the last value handed out by the sequence
  \<^verbatim>\<open>invoice_seq\<close>, or \<open>None\<close> when the raw query raises; \<open>unix_time\<close> is
  \<^verbatim>\<open>int(time.time())\<close>; \<open>now\<close> is the timestamp the store gives to
  \<^verbatim>\<open>created_at\<close> of a new row.
\<close>

subsection \<open>Requests\<close>

record sales_create =
  sc_customer_name :: string
  sc_customer_address :: string
  sc_customer_phone :: string
  sc_product_id :: int
  sc_quantity :: int
  sc_sale_price :: real
  sc_payment_type :: string
  sc_advance_amount :: real

record sale_item =
  si_product_id :: int
  si_quantity :: int
  si_sale_price :: real

record bulk_sales_create =
  bs_customer_name :: string
  bs_customer_address :: "string option"
  bs_customer_phone :: "string option"
  bs_payment_type :: string
  bs_advance_amount :: real
  bs_items :: "sale_item list"

record sales_update =
  su_customer_name :: "string option"
  su_customer_address :: "string option"
  su_customer_phone :: "string option"
  su_quantity :: "int option"
  su_sale_price :: "real option"
  su_payment_type :: "string option"
  su_advance_amount :: "real option"

record expense_item =
  ei_material_name :: string
  ei_vendor_name :: string
  ei_amount :: real

record bulk_expense_create =
  be_payment_method :: string
  be_advance_amount :: real
  be_items :: "expense_item list"

subsection \<open>Errors\<close>

text \<open>
  Every \<^verbatim>\<open>raise HTTPException\<close> of the handlers is one constructor; \<open>status_code\<close>
  gives the HTTP status it carries. \<open>InsufficientQuantity name available requested\<close>
  is the answer "Insufficient quantity" (InsufficientStock in the specification).
  \<open>InternalServerError\<close> is the exception with status 500 that a handler's
  \<^verbatim>\<open>except Exception\<close> raises in place of any other exception; \<open>Unhandled\<close> is an
  exception that leaves the handler, which the server also answers with status 500.
\<close>

datatype py_exception = AttributeError | NameError | ValueError

datatype error =
    EmptyItems
  | InvalidProductId int
  | InvalidQuantity int
  | InvalidSalePrice real
  | ProductNotFound int
  | InsufficientQuantity string int int
  | SaleNotFound
  | PermissionDenied
  | FailedToUpdate
  | InternalServerError
  | Unhandled py_exception

fun status_code :: "error \<Rightarrow> nat" where
  "status_code EmptyItems = 400"
| "status_code (InvalidProductId _) = 400"
| "status_code (InvalidQuantity _) = 400"
| "status_code (InvalidSalePrice _) = 400"
| "status_code (ProductNotFound _) = 404"
| "status_code (InsufficientQuantity _ _ _) = 400"
| "status_code SaleNotFound = 404"
| "status_code PermissionDenied = 403"
| "status_code FailedToUpdate = 400"
| "status_code InternalServerError = 500"
| "status_code (Unhandled _) = 500"

subsection \<open>Reading \<^verbatim>\<open>entry_date\<close> from a request\<close>

text \<open>
  The handlers read \<^verbatim>\<open>entry_date\<close> from their request objects
  (\<^verbatim>\<open>sale.entry_date\<close>, \<^verbatim>\<open>sale_data.entry_date\<close>, \<^verbatim>\<open>expense.entry_date\<close>,
  \<^verbatim>\<open>expense_data.entry_date\<close>). None of the schemas \<^verbatim>\<open>SalesCreate\<close>,
  \<^verbatim>\<open>BulkSalesCreate\<close>, \<^verbatim>\<open>SalesUpdate\<close>, \<^verbatim>\<open>ExpenseCreate\<close> and
  \<^verbatim>\<open>BulkExpenseCreate\<close> declares such a field, and none sets an option for extra
  fields, so a value sent under that name is dropped when the request is parsed and the
  read raises \<^verbatim>\<open>AttributeError\<close>. Each function below is that read, for one schema; the
  handlers are written out in full around it, with the store operations that would
  follow a read that returned.
\<close>

definition sc_entry_date :: "sales_create \<Rightarrow> py_exception + string option" where
  "sc_entry_date sale = Inl AttributeError"

definition bs_entry_date :: "bulk_sales_create \<Rightarrow> py_exception + string option" where
  "bs_entry_date sale_data = Inl AttributeError"

definition su_entry_date :: "sales_update \<Rightarrow> py_exception + string option" where
  "su_entry_date sale = Inl AttributeError"

definition be_entry_date :: "bulk_expense_create \<Rightarrow> py_exception + string option" where
  "be_entry_date expense_data = Inl AttributeError"

section \<open>Store operations\<close>

definition inventory_find_unique :: "db \<Rightarrow> int \<Rightarrow> product option" where
  "inventory_find_unique d pid = find (\<lambda>p. p_id p = pid) (inventory d)"

definition inventory_find_first :: "db \<Rightarrow> string \<Rightarrow> string \<Rightarrow> product option" where
  "inventory_find_first d name cat =
     find (\<lambda>p. p_product_name p = name \<and> p_category p = cat) (inventory d)"

definition inventory_update_where :: "db \<Rightarrow> int \<Rightarrow> int \<Rightarrow> db" where
  "inventory_update_where d pid q =
     d\<lparr>inventory := map (\<lambda>p. if p_id p = pid then p\<lparr>p_quantity := q\<rparr> else p) (inventory d)\<rparr>"

text \<open>
  \<^verbatim>\<open>find_unique\<close> and \<^verbatim>\<open>find_first\<close> return the first row that matches,
  \<^verbatim>\<open>update\<close> writes every row with the given id (ids are the primary key). The
  store assigns \<^verbatim>\<open>id\<close> and \<^verbatim>\<open>created_at\<close> of a new row, and \<^verbatim>\<open>create\<close>
  always returns the row it has inserted, so the branches \<^verbatim>\<open>if not created_sale\<close> of
  the handlers are never taken and have no counterpart below. A store that cannot be
  reached is not modelled.
\<close>

definition sales_create :: "db \<Rightarrow> sale \<Rightarrow> sale \<times> db" where
  "sales_create d data =
     (let row = data\<lparr>s_id := next_sale_id d, s_created_at := now d\<rparr>
      in (row, d\<lparr>sales := sales d @ [row], next_sale_id := next_sale_id d + 1\<rparr>))"

definition sales_find_unique :: "db \<Rightarrow> int \<Rightarrow> sale option" where
  "sales_find_unique d sid = find (\<lambda>s. s_id s = sid) (sales d)"

definition sales_find_first :: "db \<Rightarrow> string \<Rightarrow> string \<Rightarrow> sale option" where
  "sales_find_first d invoice_no uid =
     find (\<lambda>s. s_invoice_no s = Some invoice_no \<and> s_sold_by s = uid) (sales d)"

definition sales_delete :: "db \<Rightarrow> int \<Rightarrow> sale option \<times> db" where
  "sales_delete d sid =
     (sales_find_unique d sid, d\<lparr>sales := filter (\<lambda>s. s_id s \<noteq> sid) (sales d)\<rparr>)"

section \<open>Sequence allocator\<close>

fun str_nat :: "nat \<Rightarrow> string" where
  "str_nat n =
     (if n < 10 then [''0123456789'' ! n]
      else str_nat (n div 10) @ [''0123456789'' ! (n mod 10)])"

definition zfill :: "nat \<Rightarrow> string \<Rightarrow> string" where
  "zfill w s = replicate (w - length s) CHR ''0'' @ s"

definition next_invoice_no :: "db \<Rightarrow> string \<times> db" where
  "next_invoice_no d =
     (case invoice_seq d of
        Some n \<Rightarrow> (''INV-'' @ zfill 6 (str_nat (n + 1)), d\<lparr>invoice_seq := Some (n + 1)\<rparr>)
      | None \<Rightarrow> (''INV-'' @ zfill 6 (str_nat (unix_time d mod 1000000)), d))"

section \<open>Sales\<close>


fun validate_items :: "sale_item list \<Rightarrow> error option" where
  "validate_items [] = None"
| "validate_items (item # rest) =
     (if si_product_id item \<le> 0 then Some (InvalidProductId (si_product_id item))
      else if si_quantity item \<le> 0 then Some (InvalidQuantity (si_quantity item))
      else if si_sale_price item \<le> 0 then Some (InvalidSalePrice (si_sale_price item))
      else validate_items rest)"

text \<open>
  The loop of \<^verbatim>\<open>create_bulk_sale\<close> over the items: each item reads its product
  from the store, checks the quantity, builds the row (reading
  \<^verbatim>\<open>sale_data.entry_date\<close>), inserts it and writes the new quantity back, before the
  next item is looked at. The handler's \<^verbatim>\<open>except Exception\<close> answers the
  \<^verbatim>\<open>AttributeError\<close> with status 500.
\<close>

fun bulk_sale_loop ::
  "db \<Rightarrow> string \<Rightarrow> bulk_sales_create \<Rightarrow> user_response \<Rightarrow> sale_item list \<Rightarrow> sale list
     \<Rightarrow> (error + sale list) \<times> db" where
  "bulk_sale_loop d invoice_no sale_data current_user [] created_sales =
     (Inr created_sales, d)"
| "bulk_sale_loop d invoice_no sale_data current_user (item # rest) created_sales =
     (case inventory_find_unique d (si_product_id item) of
        None \<Rightarrow> (Inl (ProductNotFound (si_product_id item)), d)
      | Some product \<Rightarrow>
          if p_quantity product < si_quantity item
          then (Inl (InsufficientQuantity (p_product_name product) (p_quantity product)
                       (si_quantity item)), d)
          else
            (case bs_entry_date sale_data of
               Inl exn \<Rightarrow> (Inl InternalServerError, d)
             | Inr entry_date \<Rightarrow>
                 let (created_sale, d1) = sales_create d
                       \<lparr>s_id = 0, s_invoice_no = Some invoice_no,
                        s_customer_name = bs_customer_name sale_data,
                        s_customer_address = bs_customer_address sale_data,
                        s_customer_phone = bs_customer_phone sale_data,
                        s_product_name = p_product_name product,
                        s_category = p_category product,
                        s_quantity = si_quantity item,
                        s_cost_price = p_cost_price product,
                        s_sale_price = si_sale_price item,
                        s_entry_date = entry_date,
                        s_payment_type = bs_payment_type sale_data,
                        s_advance_amount = Some (bs_advance_amount sale_data),
                        s_sold_by = u_id current_user,
                        s_edited = False, s_created_at = now d\<rparr>;
                     new_quantity = p_quantity product - si_quantity item;
                     d2 = inventory_update_where d1 (si_product_id item) new_quantity
                 in bulk_sale_loop d2 invoice_no sale_data current_user rest
                      (created_sales @ [created_sale])))"

definition create_bulk_sale ::
  "db \<Rightarrow> bulk_sales_create \<Rightarrow> user_response \<Rightarrow> (error + sale list) \<times> db" where
  "create_bulk_sale d sale_data current_user =
     (if bs_items sale_data = [] then (Inl EmptyItems, d)
      else case validate_items (bs_items sale_data) of
        Some e \<Rightarrow> (Inl e, d)
      | None \<Rightarrow>
          let (invoice_no, d1) = next_invoice_no d
          in bulk_sale_loop d1 invoice_no sale_data current_user (bs_items sale_data) [])"

text \<open>
  \<^verbatim>\<open>add_sale_items_to_invoice\<close>: no invoice number is allocated; a staff
  principal needs a sale row of its own under \<open>invoice_no\<close>. The handler's
  \<^verbatim>\<open>except Exception\<close> calls \<^verbatim>\<open>traceback.format_exc()\<close>, and \<^verbatim>\<open>sales.py\<close>
  imports \<^verbatim>\<open>traceback\<close> only inside other functions: an exception other than an
  \<^verbatim>\<open>HTTPException\<close> ends in a \<^verbatim>\<open>NameError\<close> that leaves the handler.
\<close>

fun append_sale_loop ::
  "db \<Rightarrow> string \<Rightarrow> bulk_sales_create \<Rightarrow> user_response \<Rightarrow> real \<Rightarrow> sale_item list \<Rightarrow> sale list
     \<Rightarrow> (error + sale list) \<times> db" where
  "append_sale_loop d invoice_no sale_data current_user final_advance [] created_sales =
     (Inr created_sales, d)"
| "append_sale_loop d invoice_no sale_data current_user final_advance (item # rest) created_sales =
     (case inventory_find_unique d (si_product_id item) of
        None \<Rightarrow> (Inl (ProductNotFound (si_product_id item)), d)
      | Some product \<Rightarrow>
          if p_quantity product < si_quantity item
          then (Inl (InsufficientQuantity (p_product_name product) (p_quantity product)
                       (si_quantity item)), d)
          else
            (case bs_entry_date sale_data of
               Inl exn \<Rightarrow> (Inl (Unhandled NameError), d)
             | Inr entry_date \<Rightarrow>
                 let (created_sale, d1) = sales_create d
                       \<lparr>s_id = 0, s_invoice_no = Some invoice_no,
                        s_customer_name = bs_customer_name sale_data,
                        s_customer_address = bs_customer_address sale_data,
                        s_customer_phone = bs_customer_phone sale_data,
                        s_product_name = p_product_name product,
                        s_category = p_category product,
                        s_quantity = si_quantity item,
                        s_cost_price = p_cost_price product,
                        s_sale_price = si_sale_price item,
                        s_entry_date = entry_date,
                        s_payment_type = bs_payment_type sale_data,
                        s_advance_amount = Some final_advance,
                        s_sold_by = u_id current_user,
                        s_edited = True, s_created_at = now d\<rparr>;
                     d2 = inventory_update_where d1 (si_product_id item)
                            (p_quantity product - si_quantity item)
                 in append_sale_loop d2 invoice_no sale_data current_user final_advance rest
                      (created_sales @ [created_sale])))"

definition add_sale_items_to_invoice ::
  "db \<Rightarrow> string \<Rightarrow> bulk_sales_create \<Rightarrow> user_response \<Rightarrow> (error + sale list) \<times> db" where
  "add_sale_items_to_invoice d invoice_no sale_data current_user =
     (if bs_items sale_data = [] then (Inl EmptyItems, d)
      else if u_role current_user = ''staff''
              \<and> sales_find_first d invoice_no (u_id current_user) = None
      then (Inl PermissionDenied, d)
      else
        let final_advance =
              (if bs_payment_type sale_data \<noteq> ''1'' then bs_advance_amount sale_data else 0)
        in append_sale_loop d invoice_no sale_data current_user final_advance
             (bs_items sale_data) [])"

text \<open>
  \<^verbatim>\<open>update_sale\<close>: \<open>update_data\<close> is the dictionary the handler builds, as the
  function it applies to the stored row; \<open>entry_date\<close> is what the read of
  \<^verbatim>\<open>sale.entry_date\<close> gave. That read comes while the dictionary is built, before
  \<^verbatim>\<open>db.sales.update\<close>.
\<close>

definition update_data :: "sales_update \<Rightarrow> string option \<Rightarrow> sale \<Rightarrow> sale \<Rightarrow> sale" where
  "update_data sale entry_date existing_sale row =
     row\<lparr>s_edited := True,
         s_customer_name :=
           (case su_customer_name sale of None \<Rightarrow> s_customer_name row | Some v \<Rightarrow> v),
         s_customer_address :=
           (case su_customer_address sale of None \<Rightarrow> s_customer_address row | Some v \<Rightarrow> Some v),
         s_customer_phone :=
           (case su_customer_phone sale of None \<Rightarrow> s_customer_phone row | Some v \<Rightarrow> Some v),
         s_sale_price :=
           (case su_sale_price sale of None \<Rightarrow> s_sale_price row | Some v \<Rightarrow> v),
         s_entry_date :=
           (case entry_date of None \<Rightarrow> s_entry_date row | Some v \<Rightarrow> Some v),
         s_payment_type :=
           (case su_payment_type sale of None \<Rightarrow> s_payment_type row | Some v \<Rightarrow> v),
         s_advance_amount :=
           (case su_advance_amount sale of None \<Rightarrow> s_advance_amount row | Some v \<Rightarrow> Some v),
         s_quantity :=
           (case su_quantity sale of
              None \<Rightarrow> s_quantity row
            | Some q \<Rightarrow> if q \<noteq> s_quantity existing_sale then q else s_quantity row)\<rparr>"

definition sales_update_where :: "db \<Rightarrow> int \<Rightarrow> (sale \<Rightarrow> sale) \<Rightarrow> sale option \<times> db" where
  "sales_update_where d sid f =
     (map_option f (sales_find_unique d sid),
      d\<lparr>sales := map (\<lambda>s. if s_id s = sid then f s else s) (sales d)\<rparr>)"

definition update_sale ::
  "db \<Rightarrow> int \<Rightarrow> sales_update \<Rightarrow> user_response \<Rightarrow> (error + sale) \<times> db" where
  "update_sale d sale_id sale current_user =
     (case sales_find_unique d sale_id of
        None \<Rightarrow> (Inl SaleNotFound, d)
      | Some existing_sale \<Rightarrow>
          if u_role current_user \<noteq> ''admin'' \<and> s_sold_by existing_sale \<noteq> u_id current_user
          then (Inl PermissionDenied, d)
          else
            (case su_entry_date sale of
               Inl exn \<Rightarrow> (Inl InternalServerError, d)
             | Inr entry_date \<Rightarrow>
                 (case sales_update_where d sale_id (update_data sale entry_date existing_sale) of
                    (None, d1) \<Rightarrow> (Inl FailedToUpdate, d1)
                  | (Some updated_sale, d1) \<Rightarrow> (Inr updated_sale, d1))))"

definition delete_sale ::
  "db \<Rightarrow> int \<Rightarrow> bool \<Rightarrow> user_response \<Rightarrow> (error + unit) \<times> db" where
  "delete_sale d sale_id restore_inventory current_user =
     (case sales_find_unique d sale_id of
        None \<Rightarrow> (Inl SaleNotFound, d)
      | Some existing_sale \<Rightarrow>
          if u_role current_user \<noteq> ''admin'' \<and> s_sold_by existing_sale \<noteq> u_id current_user
          then (Inl PermissionDenied, d)
          else
            let d1 =
                  (if restore_inventory
                   then (case inventory_find_first d (s_product_name existing_sale)
                                 (s_category existing_sale) of
                           None \<Rightarrow> d
                         | Some product \<Rightarrow>
                             inventory_update_where d (p_id product)
                               (p_quantity product + s_quantity existing_sale))
                   else d)
            in (case sales_delete d1 sale_id of
                  (None, d2) \<Rightarrow> (Inl SaleNotFound, d2)
                | (Some deleted_sale, d2) \<Rightarrow> (Inr (), d2)))"

section \<open>Expenses\<close>

text \<open>
  Python's \<^verbatim>\<open>sub in s\<close> and \<^verbatim>\<open>s.split(sep, 1)\<close>: \<open>str_find\<close> is the index of
  the leftmost occurrence.
\<close>

fun str_find :: "string \<Rightarrow> string \<Rightarrow> nat option" where
  "str_find sub [] = (if sub = [] then Some 0 else None)"
| "str_find sub (c # cs) =
     (if prefix sub (c # cs) then Some 0 else map_option Suc (str_find sub cs))"

definition str_in :: "string \<Rightarrow> string \<Rightarrow> bool" where
  "str_in sub s = (str_find sub s \<noteq> None)"

definition split1 :: "string \<Rightarrow> string \<Rightarrow> string list" where
  "split1 sep s =
     (case str_find sep s of
        None \<Rightarrow> [s]
      | Some i \<Rightarrow> [take i s, drop (i + length sep) s])"

definition combined_name :: "string \<Rightarrow> string \<Rightarrow> string" where
  "combined_name material_name vendor_name = material_name @ '' - '' @ vendor_name"

definition split_material_name :: "string \<Rightarrow> string \<times> string" where
  "split_material_name material_full =
     (if str_in '' - '' material_full
      then (let parts = split1 '' - '' material_full in (parts ! 0, parts ! 1))
      else (material_full, ''Unknown''))"

definition expenses_create :: "db \<Rightarrow> expense \<Rightarrow> expense \<times> db" where
  "expenses_create d data =
     (let row = data\<lparr>e_id := next_expense_id d, e_created_at := now d\<rparr>
      in (row, d\<lparr>expenses := expenses d @ [row], next_expense_id := next_expense_id d + 1\<rparr>))"

definition expenses_find_first :: "db \<Rightarrow> string \<Rightarrow> string \<Rightarrow> expense option" where
  "expenses_find_first d invoice_no uid =
     find (\<lambda>e. e_invoice_no e = Some invoice_no \<and> e_added_by e = uid) (expenses d)"

record expense_create =
  ec_material_name :: string
  ec_vendor_name :: string
  ec_amount :: real
  ec_payment_method :: string
  ec_advance_amount :: real

definition ec_entry_date :: "expense_create \<Rightarrow> py_exception + string option" where
  "ec_entry_date expense = Inl AttributeError"

text \<open>
  \<^verbatim>\<open>create_expense\<close> builds \<open>insert_data\<close>, reading \<^verbatim>\<open>expense.entry_date\<close>,
  before it calls \<^verbatim>\<open>db.expenses.create\<close>.
\<close>

definition create_expense ::
  "db \<Rightarrow> expense_create \<Rightarrow> user_response \<Rightarrow> (error + expense) \<times> db" where
  "create_expense d expense current_user =
     (case ec_entry_date expense of
        Inl exn \<Rightarrow> (Inl InternalServerError, d)
      | Inr entry_date \<Rightarrow>
          let (created_expense, d1) = expenses_create d
                \<lparr>e_id = 0, e_invoice_no = None,
                 e_material_name =
                   combined_name (ec_material_name expense) (ec_vendor_name expense),
                 e_amount = ec_amount expense,
                 e_payment_method = ec_payment_method expense,
                 e_advance_amount = Some (ec_advance_amount expense),
                 e_entry_date = entry_date,
                 e_added_by = u_id current_user,
                 e_used = False, e_edited = False, e_created_at = now d\<rparr>
          in (Inr created_expense, d1))"

text \<open>
  The loop of \<^verbatim>\<open>add_expense_items_to_invoice\<close>; \<^verbatim>\<open>expenses.py\<close> imports
  \<^verbatim>\<open>traceback\<close> at the top, so its \<^verbatim>\<open>except Exception\<close> answers with status 500.
\<close>

fun append_expense_loop ::
  "db \<Rightarrow> string \<Rightarrow> bulk_expense_create \<Rightarrow> user_response \<Rightarrow> real \<Rightarrow> expense_item list
     \<Rightarrow> expense list \<Rightarrow> (error + expense list) \<times> db" where
  "append_expense_loop d invoice_no expense_data current_user final_advance [] created_expenses =
     (Inr created_expenses, d)"
| "append_expense_loop d invoice_no expense_data current_user final_advance (item # rest)
     created_expenses =
     (case be_entry_date expense_data of
        Inl exn \<Rightarrow> (Inl InternalServerError, d)
      | Inr entry_date \<Rightarrow>
          let (created_expense, d1) = expenses_create d
                \<lparr>e_id = 0, e_invoice_no = Some invoice_no,
                 e_material_name = combined_name (ei_material_name item) (ei_vendor_name item),
                 e_amount = ei_amount item,
                 e_payment_method = be_payment_method expense_data,
                 e_advance_amount = Some final_advance,
                 e_entry_date = entry_date,
                 e_added_by = u_id current_user,
                 e_used = False, e_edited = True, e_created_at = now d\<rparr>
          in append_expense_loop d1 invoice_no expense_data current_user final_advance rest
               (created_expenses @ [created_expense]))"

definition add_expense_items_to_invoice ::
  "db \<Rightarrow> string \<Rightarrow> bulk_expense_create \<Rightarrow> user_response \<Rightarrow> (error + expense list) \<times> db" where
  "add_expense_items_to_invoice d invoice_no expense_data current_user =
     (if be_items expense_data = [] then (Inl EmptyItems, d)
      else if u_role current_user = ''staff''
              \<and> expenses_find_first d invoice_no (u_id current_user) = None
      then (Inl PermissionDenied, d)
      else
        let final_advance =
              (if be_payment_method expense_data \<noteq> ''1'' then be_advance_amount expense_data
               else 0)
        in append_expense_loop d invoice_no expense_data current_user final_advance
             (be_items expense_data) [])"

section \<open>Ledger aggregator\<close>

text \<open>Python's \<^verbatim>\<open>sum\<close> adds from the left, starting at 0.\<close>

definition py_sum :: "real list \<Rightarrow> real" where
  "py_sum xs = foldl (+) 0 xs"

record dashboard_stats =
  ds_total_sales :: real
  ds_total_profit :: real
  ds_total_expenses :: real
  ds_total_pending :: real
  ds_inventory_value :: real
  ds_sales_count :: nat
  ds_expenses_count :: nat
  ds_inventory_count :: nat

definition get_dashboard_stats :: "db \<Rightarrow> user_response \<Rightarrow> dashboard_stats" where
  "get_dashboard_stats d current_user =
     (let sales_data =
            (if u_role current_user = ''staff''
             then filter (\<lambda>s. s_sold_by s = u_id current_user) (sales d) else sales d);
          total_sales = py_sum (map (\<lambda>s. s_sale_price s * of_int (s_quantity s)) sales_data);
          total_cogs = py_sum (map (\<lambda>s. s_cost_price s * of_int (s_quantity s)) sales_data);
          total_pending =
            py_sum (map (\<lambda>s. s_sale_price s * of_int (s_quantity s)
                               - (case s_advance_amount s of None \<Rightarrow> 0 | Some a \<Rightarrow> a))
                      (filter (\<lambda>s. s_payment_type s = ''2'') sales_data));
          expenses_data =
            (if u_role current_user = ''staff''
             then filter (\<lambda>e. e_added_by e = u_id current_user) (expenses d) else expenses d);
          total_expenses = py_sum (map e_amount expenses_data);
          total_profit = total_sales - total_cogs - total_expenses;
          inventory_data = inventory d;
          inventory_value =
            py_sum (map (\<lambda>p. p_cost_price p * of_int (p_quantity p)) inventory_data)
      in \<lparr>ds_total_sales = total_sales, ds_total_profit = total_profit,
          ds_total_expenses = total_expenses, ds_total_pending = total_pending,
          ds_inventory_value = inventory_value, ds_sales_count = length sales_data,
          ds_expenses_count = length expenses_data,
          ds_inventory_count = length inventory_data\<rparr>)"

text \<open>
  \<^verbatim>\<open>datetime(year, month, 1)\<close> raises \<^verbatim>\<open>ValueError\<close> unless the year is between 1
  and 9999 and the month between 1 and 12. \<open>month_range\<close> is the pair of bounds that
  the report builds for one month, the lower one first.
\<close>

definition first_of_month :: "int \<Rightarrow> int \<Rightarrow> py_exception + datetime" where
  "first_of_month year month =
     (if 1 \<le> year \<and> year \<le> 9999 \<and> 1 \<le> month \<and> month \<le> 12
      then Inr (year, month, 1, 0) else Inl ValueError)"

definition month_range :: "int \<Rightarrow> int \<Rightarrow> py_exception + datetime \<times> datetime" where
  "month_range year month_num =
     (case first_of_month year month_num of
        Inl exn \<Rightarrow> Inl exn
      | Inr gte \<Rightarrow>
          (case (if month_num < 12 then first_of_month year (month_num + 1)
                 else first_of_month (year + 1) 1) of
             Inl exn \<Rightarrow> Inl exn
           | Inr lt \<Rightarrow> Inr (gte, lt)))"

definition created_between :: "datetime \<times> datetime \<Rightarrow> datetime \<Rightarrow> bool" where
  "created_between bounds created_at =
     (dt_less_eq (fst bounds) created_at \<and> dt_less created_at (snd bounds))"

definition month_names :: "string list" where
  "month_names =
     [''January'', ''February'', ''March'', ''April'', ''May'', ''June'',
      ''July'', ''August'', ''September'', ''October'', ''November'', ''December'']"

record monthly_data =
  md_month :: string
  md_month_number :: int
  md_revenue :: real
  md_expenses :: real
  md_profit :: real

record monthly_report_response =
  mr_months :: "monthly_data list"
  mr_total_revenue :: real
  mr_total_expenses :: real
  mr_total_profit :: real

definition month_revenue :: "db \<Rightarrow> datetime \<times> datetime \<Rightarrow> real" where
  "month_revenue d bounds =
     py_sum (map (\<lambda>s. s_sale_price s * of_int (s_quantity s))
               (filter (\<lambda>s. created_between bounds (s_created_at s)) (sales d)))"

definition month_cogs :: "db \<Rightarrow> datetime \<times> datetime \<Rightarrow> real" where
  "month_cogs d bounds =
     py_sum (map (\<lambda>s. s_cost_price s * of_int (s_quantity s))
               (filter (\<lambda>s. created_between bounds (s_created_at s)) (sales d)))"

definition month_expenses :: "db \<Rightarrow> datetime \<times> datetime \<Rightarrow> real" where
  "month_expenses d bounds =
     py_sum (map e_amount
               (filter (\<lambda>e. created_between bounds (e_created_at e)) (expenses d)))"

definition month_profit :: "db \<Rightarrow> datetime \<times> datetime \<Rightarrow> real" where
  "month_profit d bounds = month_revenue d bounds - month_cogs d bounds - month_expenses d bounds"

text \<open>
  The loop \<^verbatim>\<open>for month_num in range(1, 13)\<close>, with the accumulators
  \<open>monthly_data\<close>, \<open>total_revenue\<close>, \<open>total_cogs\<close> and \<open>total_expenses\<close>.

  \<open>round2\<close> stands for \<^verbatim>\<open>round(x, 2)\<close>, a function of the language and not of
  this repository. It acts on the binary double: where a number lies halfway between
  two hundredths its result depends on a representation that the exact reals of this
  model do not carry. The report therefore takes it as a parameter, and what is proved
  of the report holds for every such function.

  The handler has no \<^verbatim>\<open>try\<close>: a \<^verbatim>\<open>ValueError\<close> from a date leaves it.
\<close>

fun monthly_loop ::
  "(real \<Rightarrow> real) \<Rightarrow> db \<Rightarrow> int \<Rightarrow> int list \<Rightarrow> monthly_data list \<times> real \<times> real \<times> real
     \<Rightarrow> py_exception + monthly_data list \<times> real \<times> real \<times> real" where
  "monthly_loop round2 d year [] acc = Inr acc"
| "monthly_loop round2 d year (month_num # rest)
     (monthly_data, total_revenue, total_cogs, total_expenses) =
     (case month_range year month_num of
        Inl exn \<Rightarrow> Inl exn
      | Inr bounds \<Rightarrow>
          monthly_loop round2 d year rest
            (monthly_data @
               [\<lparr>md_month = month_names ! nat (month_num - 1), md_month_number = month_num,
                 md_revenue = round2 (month_revenue d bounds),
                 md_expenses = round2 (month_expenses d bounds),
                 md_profit = round2 (month_profit d bounds)\<rparr>],
             total_revenue + month_revenue d bounds,
             total_cogs + month_cogs d bounds,
             total_expenses + month_expenses d bounds))"

definition get_monthly_report ::
  "(real \<Rightarrow> real) \<Rightarrow> db \<Rightarrow> int \<Rightarrow> user_response \<Rightarrow> error + monthly_report_response" where
  "get_monthly_report round2 d year current_user =
     (case monthly_loop round2 d year [1..12] ([], 0, 0, 0) of
        Inl exn \<Rightarrow> Inl (Unhandled exn)
      | Inr (monthly_data, total_revenue, total_cogs, total_expenses) \<Rightarrow>
          let total_profit = total_revenue - total_cogs - total_expenses
          in Inr \<lparr>mr_months = monthly_data, mr_total_revenue = round2 total_revenue,
                  mr_total_expenses = round2 total_expenses,
                  mr_total_profit = round2 total_profit\<rparr>)"

section \<open>Notions used to state the properties\<close>




text \<open>
  \<open>month_span\<close> is the pair of bounds of a month, as \<open>month_range\<close> gives it
  for a year in which no date fails.
\<close>

definition month_span :: "int \<Rightarrow> int \<Rightarrow> datetime \<times> datetime" where
  "month_span year month_num =
     ((year, month_num, 1, 0),
      if month_num < 12 then (year, month_num + 1, 1, 0) else (year + 1, 1, 1, 0))"

text \<open>
  \<open>nearest_hundredth\<close> rounds to the nearest multiple of 0.01, a tie going to the
  even one. \<^verbatim>\<open>round(x, 2)\<close> gives the same result for a number that is not halfway
  between two hundredths; the examples below run the report with it and contain no
  number that is.
\<close>

definition round_half_even :: "real \<Rightarrow> int" where
  "round_half_even x =
     (let f = \<lfloor>x\<rfloor>; r = x - of_int f
      in if r < 1 / 2 then f else if 1 / 2 < r then f + 1
         else if even f then f else f + 1)"

definition nearest_hundredth :: "real \<Rightarrow> real" where
  "nearest_hundredth x = of_int (round_half_even (x * 100)) / 100"

section \<open>Example data\<close>

definition ex_admin :: user_response where
  "ex_admin = \<lparr>u_id = ''1'', u_name = ''Ann'', u_role = ''admin''\<rparr>"

definition ex_staff :: user_response where
  "ex_staff = \<lparr>u_id = ''2'', u_name = ''Bob'', u_role = ''staff''\<rparr>"

definition ex_product_A :: product where
  "ex_product_A = \<lparr>p_id = 1, p_product_name = ''A'', p_category = ''Wood'', p_cost_price = 60,
     p_quantity = 5, p_added_by = ''1''\<rparr>"

definition ex_product_B :: product where
  "ex_product_B = \<lparr>p_id = 2, p_product_name = ''B'', p_category = ''Wood'', p_cost_price = 30,
     p_quantity = 5, p_added_by = ''1''\<rparr>"

definition ex_db :: db where
  "ex_db = \<lparr>inventory = [ex_product_A, ex_product_B], sales = [], expenses = [],
     next_sale_id = 1, next_expense_id = 1, invoice_seq = Some 0, unix_time = 1700000000,
     now = (2024, 3, 15, 0)\<rparr>"

definition ex_items :: "sale_item list" where
  "ex_items = [\<lparr>si_product_id = 1, si_quantity = 2, si_sale_price = 100\<rparr>,
               \<lparr>si_product_id = 2, si_quantity = 1, si_sale_price = 50\<rparr>]"

definition ex_items_short :: "sale_item list" where
  "ex_items_short = [\<lparr>si_product_id = 1, si_quantity = 2, si_sale_price = 100\<rparr>,
                     \<lparr>si_product_id = 2, si_quantity = 10, si_sale_price = 50\<rparr>]"

definition ex_bulk_sale :: "sale_item list \<Rightarrow> bulk_sales_create" where
  "ex_bulk_sale items = \<lparr>bs_customer_name = ''Carol'', bs_customer_address = None,
     bs_customer_phone = None, bs_payment_type = ''1'',
     bs_advance_amount = 0, bs_items = items\<rparr>"

text \<open>
  A sale row as the store holds it: \<open>ex_sale owner invoice payment advance month\<close>
  is one unit of product A sold at 100 (cost 60) in the given month of 2024.
\<close>

definition ex_sale :: "int \<Rightarrow> string \<Rightarrow> string option \<Rightarrow> string \<Rightarrow> real option \<Rightarrow> int \<Rightarrow> sale" where
  "ex_sale i owner invoice payment advance month =
     \<lparr>s_id = i, s_invoice_no = invoice, s_customer_name = ''Carol'',
      s_customer_address = None, s_customer_phone = None, s_product_name = ''A'',
      s_category = ''Wood'', s_quantity = 1, s_cost_price = 60, s_sale_price = 100,
      s_entry_date = None, s_payment_type = payment, s_advance_amount = advance,
      s_sold_by = owner, s_edited = False, s_created_at = (2024, month, 15, 0)\<rparr>"

definition ex_sales_update :: sales_update where
  "ex_sales_update = \<lparr>su_customer_name = None, su_customer_address = None,
     su_customer_phone = None, su_quantity = Some 9, su_sale_price = None,
     su_payment_type = None, su_advance_amount = None\<rparr>"

definition ex_sales_create :: "int \<Rightarrow> sales_create" where
  "ex_sales_create q = \<lparr>sc_customer_name = ''Carol'', sc_customer_address = '''',
     sc_customer_phone = '''', sc_product_id = 1, sc_quantity = q, sc_sale_price = 100,
     sc_payment_type = ''1'', sc_advance_amount = 0\<rparr>"

definition ex_expense :: "string \<Rightarrow> string option \<Rightarrow> expense" where
  "ex_expense owner invoice =
     \<lparr>e_id = 1, e_invoice_no = invoice, e_material_name = ''Glue - Acme'', e_amount = 20,
      e_payment_method = ''1'', e_advance_amount = None, e_entry_date = None,
      e_added_by = owner, e_used = False, e_edited = False, e_created_at = (2024, 3, 15, 0)\<rparr>"

definition ex_bulk_expense :: "expense_item list \<Rightarrow> bulk_expense_create" where
  "ex_bulk_expense items = \<lparr>be_payment_method = ''1'', be_advance_amount = 0,
     be_items = items\<rparr>"

definition ex_expense_items :: "expense_item list" where
  "ex_expense_items = [\<lparr>ei_material_name = ''Nails'', ei_vendor_name = ''Acme'', ei_amount = 5\<rparr>]"

definition ex_expense_create :: "string \<Rightarrow> string \<Rightarrow> expense_create" where
  "ex_expense_create material vendor = \<lparr>ec_material_name = material, ec_vendor_name = vendor,
     ec_amount = 20, ec_payment_method = ''1'', ec_advance_amount = 0\<rparr>"

text \<open>A store where each principal owns one line of one invoice, sales and expenses alike.\<close>

definition ex_db_invoices :: db where
  "ex_db_invoices = ex_db
     \<lparr>sales := [ex_sale 1 ''2'' (Some ''INV-000007'') ''1'' None 3,
                ex_sale 2 ''1'' (Some ''INV-000008'') ''1'' None 3],
      expenses := [ex_expense ''2'' (Some ''INV-000007''), ex_expense ''1'' (Some ''INV-000008'')]\<rparr>"

definition ex_items_twice :: "sale_item list" where
  "ex_items_twice = [\<lparr>si_product_id = 1, si_quantity = 3, si_sale_price = 100\<rparr>,
                     \<lparr>si_product_id = 1, si_quantity = 3, si_sale_price = 100\<rparr>]"

definition ex_subcent_sale :: "int \<Rightarrow> int \<Rightarrow> sale" where
  "ex_subcent_sale i month =
     (ex_sale i ''1'' None ''1'' None month)\<lparr>s_sale_price := 10.004, s_cost_price := 6\<rparr>"

definition ex_db_subcent :: db where
  "ex_db_subcent = ex_db\<lparr>sales := [ex_subcent_sale 1 1, ex_subcent_sale 2 2]\<rparr>"

definition ex_db_march :: db where
  "ex_db_march = ex_db\<lparr>sales := [ex_sale 1 ''1'' None ''1'' None 3]\<rparr>"

definition ex_db_two_sales :: db where
  "ex_db_two_sales =
     ex_db\<lparr>sales := [ex_sale 1 ''2'' None ''1'' None 3, ex_sale 2 ''2'' None ''1'' None 3]\<rparr>"

section \<open>Auxiliary facts\<close>

lemmas ex_defs = ex_admin_def ex_staff_def ex_product_A_def ex_product_B_def ex_db_def
  ex_items_def ex_items_short_def ex_bulk_sale_def ex_sale_def ex_sales_update_def
  ex_sales_create_def ex_expense_def ex_bulk_expense_def ex_expense_items_def
  ex_expense_create_def ex_db_invoices_def ex_items_twice_def ex_subcent_sale_def
  ex_db_subcent_def ex_db_march_def ex_db_two_sales_def

lemmas store_defs = inventory_find_unique_def inventory_find_first_def
  inventory_update_where_def sales_create_def sales_find_unique_def sales_find_first_def
  sales_delete_def sales_update_where_def next_invoice_no_def zfill_def
  expenses_create_def expenses_find_first_def

lemmas entry_date_defs = sc_entry_date_def bs_entry_date_def su_entry_date_def
  ec_entry_date_def be_entry_date_def

lemmas report_defs = get_monthly_report_def month_range_def first_of_month_def
  month_revenue_def month_cogs_def month_expenses_def month_profit_def
  created_between_def dt_less_eq_def py_sum_def nearest_hundredth_def
  round_half_even_def month_names_def

lemma upto_1_12: "[1..12] = [1, 2, 3, 4, 5, 6, 7, 8, 9, 10, 11, 12 :: int]"
  by (simp add: upto_rec1)

lemma find_Some_member: "find P xs = Some x \<Longrightarrow> P x \<and> x \<in> set xs"
  by (induction xs) (auto split: if_splits)

lemma replicate_5: "replicate 5 c = [c, c, c, c, c]"
  by (simp add: eval_nat_numeral)

lemma foldl_add_sum_list: "foldl (+) a xs = a + sum_list (xs :: real list)"
  by (induction xs arbitrary: a) (simp_all add: add.assoc)

lemma py_sum_sum_list: "py_sum xs = sum_list xs"
  by (simp add: py_sum_def foldl_add_sum_list)

lemma sum_list_filter_if:
  "sum_list (map f (filter P xs)) = (\<Sum>x\<leftarrow>xs. if P x then f x else (0::real))"
  by (induction xs) simp_all

lemma append_sale_loop_not_denied:
  "fst (append_sale_loop d invoice_no sale_data u adv items created) \<noteq> Inl PermissionDenied"
  by (cases items) (auto simp: bs_entry_date_def split: option.splits)

lemma append_expense_loop_not_denied:
  "fst (append_expense_loop d invoice_no expense_data u adv items created)
     \<noteq> Inl PermissionDenied"
  by (cases items) (auto simp: be_entry_date_def)

lemma not_suffix_tail: "\<not> suffix xs (c # cs) \<Longrightarrow> \<not> suffix xs cs"
  by (simp add: suffix_Cons)

text \<open>
  The delimiter that \<open>combined_name\<close> writes is the leftmost one of the stored string
  when the material name neither contains it nor ends with its first two characters.
\<close>

lemma str_find_combined:
  "\<not> str_in '' - '' m \<Longrightarrow> \<not> suffix '' -'' m
     \<Longrightarrow> str_find '' - '' (m @ '' - '' @ v) = Some (length m)"
proof (induction m)
  case Nil
  then show ?case by simp
next
  case (Cons c cs)
  from Cons.prems(1) have no_prefix: "\<not> prefix '' - '' (c # cs)" and tail: "\<not> str_in '' - '' cs"
    by (auto simp: str_in_def split: if_splits)
  from Cons.prems(2) have whole_suffix: "\<not> suffix '' -'' (c # cs)" .
  then have tail_suffix: "\<not> suffix '' -'' cs"
    by (rule not_suffix_tail)
  have "\<not> prefix '' - '' ((c # cs) @ '' - '' @ v)"
  proof (cases cs)
    case Nil
    then show ?thesis by simp
  next
    case two: (Cons x xs)
    show ?thesis
    proof (cases xs)
      case Nil
      with two whole_suffix show ?thesis by (auto simp: suffix_def)
    next
      case (Cons y ys)
      with two no_prefix show ?thesis by simp
    qed
  qed
  with Cons.IH [OF tail tail_suffix] show ?case by simp
qed

subsection \<open>The monthly loop\<close>

lemma month_range_span:
  "1 \<le> y \<Longrightarrow> y \<le> 9998 \<Longrightarrow> 1 \<le> m \<Longrightarrow> m \<le> 12 \<Longrightarrow> month_range y m = Inr (month_span y m)"
  by (simp add: month_range_def first_of_month_def month_span_def)

lemma monthly_loop_sums:
  assumes "1 \<le> y" and "y \<le> 9998" and "\<forall>m \<in> set ms. 1 \<le> m \<and> m \<le> 12"
  shows "monthly_loop round2 d y ms (md, r, c, e) =
     Inr (md @ map (\<lambda>m. \<lparr>md_month = month_names ! nat (m - 1), md_month_number = m,
                      md_revenue = round2 (month_revenue d (month_span y m)),
                      md_expenses = round2 (month_expenses d (month_span y m)),
                      md_profit = round2 (month_profit d (month_span y m))\<rparr>) ms,
      r + (\<Sum>m\<leftarrow>ms. month_revenue d (month_span y m)),
      c + (\<Sum>m\<leftarrow>ms. month_cogs d (month_span y m)),
      e + (\<Sum>m\<leftarrow>ms. month_expenses d (month_span y m)))"
  using assms(3)
proof (induction ms arbitrary: md r c e)
  case Nil
  then show ?case by simp
next
  case (Cons m ms)
  then have "month_range y m = Inr (month_span y m)"
    using assms(1,2) by (simp add: month_range_span)
  with Cons show ?case by (simp add: add.assoc)
qed

lemma monthly_loop_year_out_of_range:
  assumes "y < 1 \<or> 9998 < y"
  shows "monthly_loop round2 d y [1..12] acc = Inl ValueError"
proof (cases "y = 9999")
  case True
  obtain md r c e where "acc = (md, r, c, e)" by (cases acc) auto
  with True show ?thesis
    by (simp add: upto_1_12 month_range_def first_of_month_def)
next
  case False
  obtain md r c e where "acc = (md, r, c, e)" by (cases acc) auto
  with False assms show ?thesis
    by (auto simp: upto_1_12 month_range_def first_of_month_def)
qed

lemma get_monthly_report_year_out_of_range:
  "y < 1 \<or> 9998 < y \<Longrightarrow> get_monthly_report round2 d y u = Inl (Unhandled ValueError)"
  by (simp add: get_monthly_report_def monthly_loop_year_out_of_range)

lemma get_monthly_report_year:
  assumes "get_monthly_report round2 d y u = Inr r"
  shows "1 \<le> y \<and> y \<le> 9998"
proof (rule ccontr)
  assume "\<not> (1 \<le> y \<and> y \<le> 9998)"
  then have "y < 1 \<or> 9998 < y" by auto
  then have "get_monthly_report round2 d y u = Inl (Unhandled ValueError)"
    by (rule get_monthly_report_year_out_of_range)
  with assms show False by simp
qed

lemma get_monthly_report_in_range:
  assumes "1 \<le> y" and "y \<le> 9998"
  shows "get_monthly_report round2 d y u =
     Inr \<lparr>mr_months =
            map (\<lambda>m. \<lparr>md_month = month_names ! nat (m - 1), md_month_number = m,
                       md_revenue = round2 (month_revenue d (month_span y m)),
                       md_expenses = round2 (month_expenses d (month_span y m)),
                       md_profit = round2 (month_profit d (month_span y m))\<rparr>) [1..12],
          mr_total_revenue = round2 (\<Sum>m\<leftarrow>[1..12]. month_revenue d (month_span y m)),
          mr_total_expenses = round2 (\<Sum>m\<leftarrow>[1..12]. month_expenses d (month_span y m)),
          mr_total_profit =
            round2 ((\<Sum>m\<leftarrow>[1..12]. month_revenue d (month_span y m))
                    - (\<Sum>m\<leftarrow>[1..12]. month_cogs d (month_span y m))
                    - (\<Sum>m\<leftarrow>[1..12]. month_expenses d (month_span y m)))\<rparr>"
proof -
  have "\<forall>m \<in> set [1..12]. 1 \<le> m \<and> m \<le> (12::int)" by simp
  from monthly_loop_sums [OF assms this, of round2 d "[]" 0 0 0]
  show ?thesis by (simp add: get_monthly_report_def)
qed

lemma sum_list_month_profit:
  "(\<Sum>m\<leftarrow>ms. month_profit d (f m))
     = (\<Sum>m\<leftarrow>ms. month_revenue d (f m)) - (\<Sum>m\<leftarrow>ms. month_cogs d (f m))
         - (\<Sum>m\<leftarrow>ms. month_expenses d (f m))"
  by (induction ms) (simp_all add: month_profit_def)

lemma sum_list_cents:
  "\<forall>m \<in> set ms. \<exists>k::int. f m = of_int k / 100
     \<Longrightarrow> \<exists>k::int. (\<Sum>m\<leftarrow>ms. f m) = (of_int k / 100 :: real)"
proof (induction ms)
  case Nil
  have "(0::real) = of_int 0 / 100" by simp
  then show ?case by (simp del: of_int_0)
next
  case (Cons a ms)
  then obtain k1 k2 :: int where "f a = of_int k1 / 100" "(\<Sum>m\<leftarrow>ms. f m) = of_int k2 / 100"
    by auto
  then have "(\<Sum>m\<leftarrow>a # ms. f m) = of_int (k1 + k2) / 100"
    by (simp add: add_divide_distrib)
  then show ?case by blast
qed

lemma fixes_whole_cents:
  assumes "\<forall>k::int. round2 (of_int k / 100) = (of_int k / 100 :: real)"
    and "\<exists>k::int. x = of_int k / 100"
  shows "round2 x = x"
  using assms by (elim exE) (simp only:)

lemma map_fixes_whole_cents:
  assumes "\<forall>k::int. round2 (of_int k / 100) = (of_int k / 100 :: real)"
    and "\<forall>m \<in> set ms. \<exists>k::int. f m = of_int k / 100"
  shows "map (\<lambda>m. round2 (f m)) ms = map f ms"
proof (rule map_cong [OF refl])
  fix m assume "m \<in> set ms"
  with assms(2) have "\<exists>k::int. f m = of_int k / 100" by blast
  with assms(1) show "round2 (f m) = f m" by (rule fixes_whole_cents)
qed

section \<open>Stock checks of a bulk sale (C1)\<close>







section \<open>Role scoping of the aggregations (C2)\<close>

text \<open>
  What holds: the dashboard of a staff principal depends only on the sales and expenses
  the principal owns and on the inventory, the inventory value is summed over all
  product rows for every role, and the monthly report does not depend on the
  principal at all.
\<close>

lemma dashboard_staff_scoped:
  assumes "u_role u = ''staff''"
    and "filter (\<lambda>s. s_sold_by s = u_id u) (sales d') = filter (\<lambda>s. s_sold_by s = u_id u) (sales d)"
    and "filter (\<lambda>e. e_added_by e = u_id u) (expenses d')
           = filter (\<lambda>e. e_added_by e = u_id u) (expenses d)"
    and "inventory d' = inventory d"
  shows "get_dashboard_stats d' u = get_dashboard_stats d u"
  using assms by (simp add: get_dashboard_stats_def)

lemma inventory_value_all_products:
  "ds_inventory_value (get_dashboard_stats d u)
     = (\<Sum>p\<leftarrow>inventory d. p_cost_price p * of_int (p_quantity p))"
  by (simp add: get_dashboard_stats_def Let_def py_sum_sum_list)

lemma monthly_report_same_for_all:
  "get_monthly_report round2 d y u = get_monthly_report round2 d y u'"
  by (simp add: get_monthly_report_def)

text \<open>
  The figures of the report for the store with one sale of 100 (cost 60) in March 2024,
  for every principal and whatever \<^verbatim>\<open>round(x, 2)\<close> makes of 100, 40 and 0.
\<close>

lemma monthly_report_march:
  "map_sum id mr_total_revenue (get_monthly_report round2 ex_db_march 2024 u) = Inr (round2 100)
   \<and> map_sum id mr_total_profit (get_monthly_report round2 ex_db_march 2024 u) = Inr (round2 40)
   \<and> map_sum id mr_total_revenue (get_monthly_report round2 ex_db 2024 u) = Inr (round2 0)"
  by (simp add: get_monthly_report_def month_range_def first_of_month_def month_revenue_def
        month_cogs_def month_expenses_def month_profit_def created_between_def dt_less_eq_def
        py_sum_def upto_1_12 ex_defs Let_def)

text \<open>
  C2. For a staff principal the monthly report is not restricted to the rows the
  principal owns: with one sale owned by principal "1", the report that staff
  principal "2" gets for 2024 shows that sale's revenue 100 and profit 40, where the
  store without the row gives 0, while the dashboard of the same principal counts
  no sale. The inventory value is summed over all products.
\<close>

theorem monthly_report_ignores_role:
  "u_role ex_staff = ''staff'' \<and> map s_sold_by (sales ex_db_march) = [''1'']
   \<and> u_id ex_staff = ''2''
   \<and> map_sum id mr_total_revenue (get_monthly_report nearest_hundredth ex_db_march 2024 ex_staff)
       = Inr 100
   \<and> map_sum id mr_total_profit (get_monthly_report nearest_hundredth ex_db_march 2024 ex_staff)
       = Inr 40
   \<and> map_sum id mr_total_revenue (get_monthly_report nearest_hundredth ex_db 2024 ex_staff)
       = Inr 0
   \<and> ds_total_sales (get_dashboard_stats ex_db_march ex_staff) = 0
   \<and> ds_inventory_value (get_dashboard_stats ex_db_march ex_staff) = 450"
  by (simp add: report_defs upto_1_12 get_dashboard_stats_def ex_defs Let_def)

section \<open>Stock never negative (C3)\<close>









section \<open>Profit (C4)\<close>

text \<open>
  C4, as stated, fails for the monthly report, which rounds every figure it returns
  to two decimals: with one sale at 10.004 (cost 6) in January and one in February,
  the yearly total profit is 8.01 and the twelve monthly profit figures add up to 8.
  The unrounded figures are 4.004 for each of the two months and 8.008 for the year,
  none of them halfway between two hundredths.
\<close>

theorem rounded_profit_counterexample:
  "map_sum id mr_total_profit (get_monthly_report nearest_hundredth ex_db_subcent 2024 ex_admin)
     = Inr 8.01
   \<and> sum_list (map md_profit
        (mr_months (projr (get_monthly_report nearest_hundredth ex_db_subcent 2024 ex_admin))))
     = 8
   \<and> month_profit ex_db_subcent (month_span 2024 1) = 4.004
   \<and> month_profit ex_db_subcent (month_span 2024 2) = 4.004"
  by (simp add: report_defs month_span_def upto_1_12 ex_defs Let_def)

text \<open>
  C4, amended. The total profit of the dashboard is total revenue minus total cost of
  goods minus total expenses, revenue being the sum of sale price times quantity and
  cost of goods the sum of cost price times quantity. For a year from 1 to 9998 the
  monthly report returns. Whenever it returns, and whatever the rounding to two
  decimals is, its yearly total profit is the rounding of the sum of the twelve
  unrounded monthly profits (revenue minus cost of goods minus expenses of the month),
  each monthly figure is the rounding of that month's profit, and the yearly figure is
  the sum of the twelve monthly figures whenever every monthly profit is a whole number
  of hundredths and the rounding leaves whole hundredths as they are.
\<close>

theorem profit_identity:
  "ds_total_profit (get_dashboard_stats d u)
     = ds_total_sales (get_dashboard_stats d u)
       - (\<Sum>s\<leftarrow>(if u_role u = ''staff'' then filter (\<lambda>s. s_sold_by s = u_id u) (sales d)
                   else sales d). s_cost_price s * of_int (s_quantity s))
       - ds_total_expenses (get_dashboard_stats d u)
   \<and> ds_total_sales (get_dashboard_stats d u)
     = (\<Sum>s\<leftarrow>(if u_role u = ''staff'' then filter (\<lambda>s. s_sold_by s = u_id u) (sales d)
                 else sales d). s_sale_price s * of_int (s_quantity s))
   \<and> (1 \<le> y \<and> y \<le> 9998 \<longrightarrow> (\<exists>r. get_monthly_report round2 d y u = Inr r))
   \<and> (get_monthly_report round2 d y u = Inr r \<longrightarrow>
        mr_total_profit r = round2 (\<Sum>m\<leftarrow>[1..12]. month_profit d (month_span y m))
        \<and> map md_profit (mr_months r)
            = map (\<lambda>m. round2 (month_profit d (month_span y m))) [1..12]
        \<and> ((\<forall>k::int. round2 (of_int k / 100) = of_int k / 100)
             \<longrightarrow> (\<forall>m \<in> set [1..12]. \<exists>k::int. month_profit d (month_span y m) = of_int k / 100)
             \<longrightarrow> mr_total_profit r = sum_list (map md_profit (mr_months r))))"
proof -
  have dash: "ds_total_profit (get_dashboard_stats d u)
     = ds_total_sales (get_dashboard_stats d u)
       - (\<Sum>s\<leftarrow>(if u_role u = ''staff'' then filter (\<lambda>s. s_sold_by s = u_id u) (sales d)
                   else sales d). s_cost_price s * of_int (s_quantity s))
       - ds_total_expenses (get_dashboard_stats d u)"
    by (simp add: get_dashboard_stats_def Let_def py_sum_sum_list)
  have sales_total: "ds_total_sales (get_dashboard_stats d u)
     = (\<Sum>s\<leftarrow>(if u_role u = ''staff'' then filter (\<lambda>s. s_sold_by s = u_id u) (sales d)
                 else sales d). s_sale_price s * of_int (s_quantity s))"
    by (simp add: get_dashboard_stats_def Let_def py_sum_sum_list)
  have returns: "\<exists>r. get_monthly_report round2 d y u = Inr r" if "1 \<le> y \<and> y \<le> 9998"
    using that by (simp add: get_monthly_report_in_range)
  have report: "mr_total_profit r = round2 (\<Sum>m\<leftarrow>[1..12]. month_profit d (month_span y m))
        \<and> map md_profit (mr_months r)
            = map (\<lambda>m. round2 (month_profit d (month_span y m))) [1..12]
        \<and> ((\<forall>k::int. round2 (of_int k / 100) = of_int k / 100)
             \<longrightarrow> (\<forall>m \<in> set [1..12]. \<exists>k::int. month_profit d (month_span y m) = of_int k / 100)
             \<longrightarrow> mr_total_profit r = sum_list (map md_profit (mr_months r)))"
    if returned: "get_monthly_report round2 d y u = Inr r"
  proof -
    from returned have year: "1 \<le> y" "y \<le> 9998"
      using get_monthly_report_year [OF returned] by simp_all
    from returned get_monthly_report_in_range [OF year, of round2 d u]
    have total: "mr_total_profit r = round2 (\<Sum>m\<leftarrow>[1..12]. month_profit d (month_span y m))"
      and months: "map md_profit (mr_months r)
            = map (\<lambda>m. round2 (month_profit d (month_span y m))) [1..12]"
      by (auto simp: sum_list_month_profit comp_def)
    have cents: "mr_total_profit r = sum_list (map md_profit (mr_months r))"
      if fixes_cents: "\<forall>k::int. round2 (of_int k / 100) = of_int k / 100"
        and whole: "\<forall>m \<in> set [1..12]. \<exists>k::int. month_profit d (month_span y m) = of_int k / 100"
    proof -
      have "round2 (\<Sum>m\<leftarrow>[1..12]. month_profit d (month_span y m))
              = (\<Sum>m\<leftarrow>[1..12]. month_profit d (month_span y m))"
        using fixes_cents by (rule fixes_whole_cents) (rule sum_list_cents [OF whole])
      with total months map_fixes_whole_cents [OF fixes_cents whole] show ?thesis by simp
    qed
    from total months cents show ?thesis by blast
  qed
  from dash sales_total returns report show ?thesis by blast
qed

theorem profit_identity_witness:
  "get_monthly_report nearest_hundredth ex_db_march 2024 ex_admin
     = Inr (projr (get_monthly_report nearest_hundredth ex_db_march 2024 ex_admin))
   \<and> mr_total_profit (projr (get_monthly_report nearest_hundredth ex_db_march 2024 ex_admin))
       = 40
   \<and> sum_list (map md_profit
        (mr_months (projr (get_monthly_report nearest_hundredth ex_db_march 2024 ex_admin))))
       = 40
   \<and> ds_total_profit (get_dashboard_stats ex_db_march ex_admin) = 40"
proof -
  have year: "(1::int) \<le> 2024 \<and> (2024::int) \<le> 9998" by simp
  have fixes_cents: "\<forall>k::int. nearest_hundredth (of_int k / 100) = of_int k / 100"
    by (simp add: nearest_hundredth_def round_half_even_def)
  have whole: "\<forall>m \<in> set [1..12]. \<exists>k::int.
       month_profit ex_db_march (month_span 2024 m) = of_int k / 100"
    by (simp add: upto_1_12 month_profit_def month_revenue_def month_cogs_def
          month_expenses_def created_between_def month_span_def dt_less_eq_def py_sum_def
          ex_defs)
  have returned: "get_monthly_report nearest_hundredth ex_db_march 2024 ex_admin
     = Inr (projr (get_monthly_report nearest_hundredth ex_db_march 2024 ex_admin))"
    by (simp add: report_defs upto_1_12 ex_defs Let_def)
  from profit_identity [of ex_db_march ex_admin 2024 nearest_hundredth
      "projr (get_monthly_report nearest_hundredth ex_db_march 2024 ex_admin)"]
    year fixes_cents whole returned
  have "mr_total_profit (projr (get_monthly_report nearest_hundredth ex_db_march 2024 ex_admin))
    = sum_list (map md_profit
        (mr_months (projr (get_monthly_report nearest_hundredth ex_db_march 2024 ex_admin))))"
    by blast
  moreover have "mr_total_profit
      (projr (get_monthly_report nearest_hundredth ex_db_march 2024 ex_admin)) = 40"
    by (simp add: report_defs upto_1_12 ex_defs Let_def)
  moreover have "ds_total_profit (get_dashboard_stats ex_db_march ex_admin) = 40"
    by (simp add: get_dashboard_stats_def py_sum_def ex_defs Let_def)
  ultimately show ?thesis
    using returned by simp
qed

section \<open>Pending balance (C5)\<close>

text \<open>
  C5. The pending total of the dashboard is the sum, over the sales the principal
  sees, of revenue minus advance for the rows whose payment type is "2" (ADVANCE);
  every other row counts 0, whatever advance amount it stores, so adding a row
  whose payment type is not "2" leaves the total as it was.
\<close>

theorem total_pending_advance_only:
  "ds_total_pending (get_dashboard_stats d u) =
     (\<Sum>s\<leftarrow>(if u_role u = ''staff'' then filter (\<lambda>s. s_sold_by s = u_id u) (sales d)
                else sales d).
        if s_payment_type s = ''2''
        then s_sale_price s * of_int (s_quantity s)
               - (case s_advance_amount s of None \<Rightarrow> 0 | Some a \<Rightarrow> a)
        else 0)
   \<and> (s_payment_type x \<noteq> ''2'' \<longrightarrow>
        ds_total_pending (get_dashboard_stats (d\<lparr>sales := x # sales d\<rparr>) u)
          = ds_total_pending (get_dashboard_stats d u))"
  by (simp add: get_dashboard_stats_def Let_def py_sum_sum_list sum_list_filter_if)

theorem total_pending_advance_only_witness:
  "s_payment_type (ex_sale 2 ''1'' None ''1'' (Some 40) 3) \<noteq> ''2''
   \<and> ds_total_pending
        (get_dashboard_stats (ex_db\<lparr>sales := [ex_sale 1 ''1'' None ''2'' (Some 30) 3]\<rparr>) ex_admin)
       = 70
   \<and> ds_total_pending
        (get_dashboard_stats
           (ex_db\<lparr>sales := [ex_sale 2 ''1'' None ''1'' (Some 40) 3,
                             ex_sale 1 ''1'' None ''2'' (Some 30) 3]\<rparr>) ex_admin)
       = 70"
  using total_pending_advance_only
    [of "ex_db\<lparr>sales := [ex_sale 1 ''1'' None ''2'' (Some 30) 3]\<rparr>" ex_admin
        "ex_sale 2 ''1'' None ''1'' (Some 40) 3"]
  by (simp add: ex_defs)

section \<open>The bulk sale of the worked example (C6)\<close>

text \<open>
  C6. For the bulk sale of 2 units of A at 100 and 1 unit of B at 50, with 5 units of
  each on hand, the handler answers with status 500: the first item passes the stock
  test and the row built for it reads \<^verbatim>\<open>sale_data.entry_date\<close>. The quantities stay
  at 5 and 5, no sale row is stored, and the total revenue that the dashboard
  computes is 0, where the property gives 3, 4 and 250.
\<close>

theorem bulk_sale_example_fails:
  "fst (create_bulk_sale ex_db (ex_bulk_sale ex_items) ex_admin) = Inl InternalServerError
   \<and> status_code InternalServerError = 500
   \<and> map p_product_name
        (inventory (snd (create_bulk_sale ex_db (ex_bulk_sale ex_items) ex_admin)))
     = [''A'', ''B'']
   \<and> map p_quantity
        (inventory (snd (create_bulk_sale ex_db (ex_bulk_sale ex_items) ex_admin)))
     = [5, 5]
   \<and> sales (snd (create_bulk_sale ex_db (ex_bulk_sale ex_items) ex_admin)) = []
   \<and> ds_total_sales
        (get_dashboard_stats (snd (create_bulk_sale ex_db (ex_bulk_sale ex_items) ex_admin))
           ex_admin) = 0"
  by (simp add: create_bulk_sale_def get_dashboard_stats_def py_sum_def ex_defs store_defs
        entry_date_defs Let_def replicate_5)

section \<open>Appending to an invoice (C7)\<close>

text \<open>
  C7, as stated, fails for a request without items: the handler answers 400 before it
  looks at the ownership, so a staff principal that owns no line of the invoice is
  not answered with 403.
\<close>

theorem append_empty_items_counterexample:
  "u_role ex_staff = ''staff''
   \<and> sales ex_db = [] \<and> expenses ex_db = []
   \<and> fst (add_sale_items_to_invoice ex_db ''INV-000007'' (ex_bulk_sale []) ex_staff)
       = Inl EmptyItems
   \<and> fst (add_expense_items_to_invoice ex_db ''INV-000007'' (ex_bulk_expense []) ex_staff)
       = Inl EmptyItems"
  by (simp add: add_sale_items_to_invoice_def add_expense_items_to_invoice_def ex_defs)

text \<open>
  C7, amended. For a staff principal and an append request with at least one item,
  sale or expense, the answer is \<open>PermissionDenied\<close> exactly when no line under that
  invoice number is owned by the principal; an admin is never answered
  \<open>PermissionDenied\<close>.
\<close>

theorem append_permission:
  "(u_role u = ''staff'' \<longrightarrow> bs_items sale_data \<noteq> [] \<longrightarrow>
      (fst (add_sale_items_to_invoice d invoice_no sale_data u) = Inl PermissionDenied
         \<longleftrightarrow> \<not> (\<exists>s \<in> set (sales d). s_invoice_no s = Some invoice_no \<and> s_sold_by s = u_id u)))
   \<and> (u_role u = ''staff'' \<longrightarrow> be_items expense_data \<noteq> [] \<longrightarrow>
      (fst (add_expense_items_to_invoice d invoice_no expense_data u) = Inl PermissionDenied
         \<longleftrightarrow> \<not> (\<exists>e \<in> set (expenses d). e_invoice_no e = Some invoice_no \<and> e_added_by e = u_id u)))
   \<and> (u_role u = ''admin'' \<longrightarrow>
        fst (add_sale_items_to_invoice d invoice_no sale_data u) \<noteq> Inl PermissionDenied
        \<and> fst (add_expense_items_to_invoice d invoice_no expense_data u) \<noteq> Inl PermissionDenied)"
proof -
  have sale_staff:
    "fst (add_sale_items_to_invoice d invoice_no sale_data u) = Inl PermissionDenied
       \<longleftrightarrow> \<not> (\<exists>s \<in> set (sales d). s_invoice_no s = Some invoice_no \<and> s_sold_by s = u_id u)"
    if "u_role u = ''staff''" "bs_items sale_data \<noteq> []"
    using that append_sale_loop_not_denied
    by (auto simp: add_sale_items_to_invoice_def sales_find_first_def find_None_iff Let_def)
  have expense_staff:
    "fst (add_expense_items_to_invoice d invoice_no expense_data u) = Inl PermissionDenied
       \<longleftrightarrow> \<not> (\<exists>e \<in> set (expenses d). e_invoice_no e = Some invoice_no \<and> e_added_by e = u_id u)"
    if "u_role u = ''staff''" "be_items expense_data \<noteq> []"
    using that append_expense_loop_not_denied
    by (auto simp: add_expense_items_to_invoice_def expenses_find_first_def find_None_iff
          Let_def)
  have admin:
    "fst (add_sale_items_to_invoice d invoice_no sale_data u) \<noteq> Inl PermissionDenied
     \<and> fst (add_expense_items_to_invoice d invoice_no expense_data u) \<noteq> Inl PermissionDenied"
    if "u_role u = ''admin''"
    using that append_sale_loop_not_denied append_expense_loop_not_denied
    by (auto simp: add_sale_items_to_invoice_def add_expense_items_to_invoice_def Let_def)
  from sale_staff expense_staff admin show ?thesis by blast
qed

theorem append_permission_witness:
  "u_role ex_staff = ''staff'' \<and> u_role ex_admin = ''admin''
   \<and> bs_items (ex_bulk_sale ex_items) \<noteq> [] \<and> be_items (ex_bulk_expense ex_expense_items) \<noteq> []
   \<and> fst (add_sale_items_to_invoice ex_db_invoices ''INV-000007'' (ex_bulk_sale ex_items) ex_staff)
       \<noteq> Inl PermissionDenied
   \<and> fst (add_sale_items_to_invoice ex_db_invoices ''INV-000008'' (ex_bulk_sale ex_items) ex_staff)
       = Inl PermissionDenied
   \<and> fst (add_expense_items_to_invoice ex_db_invoices ''INV-000007''
            (ex_bulk_expense ex_expense_items) ex_staff) \<noteq> Inl PermissionDenied
   \<and> fst (add_expense_items_to_invoice ex_db_invoices ''INV-000008''
            (ex_bulk_expense ex_expense_items) ex_staff) = Inl PermissionDenied
   \<and> fst (add_sale_items_to_invoice ex_db_invoices ''INV-000007'' (ex_bulk_sale ex_items) ex_admin)
       \<noteq> Inl PermissionDenied
   \<and> fst (add_expense_items_to_invoice ex_db_invoices ''INV-000007''
            (ex_bulk_expense ex_expense_items) ex_admin) \<noteq> Inl PermissionDenied"
  using
    append_permission [where u = ex_staff and d = ex_db_invoices and invoice_no = "''INV-000007''"
      and sale_data = "ex_bulk_sale ex_items" and expense_data = "ex_bulk_expense ex_expense_items"]
    append_permission [where u = ex_staff and d = ex_db_invoices and invoice_no = "''INV-000008''"
      and sale_data = "ex_bulk_sale ex_items" and expense_data = "ex_bulk_expense ex_expense_items"]
    append_permission [where u = ex_admin and d = ex_db_invoices and invoice_no = "''INV-000007''"
      and sale_data = "ex_bulk_sale ex_items" and expense_data = "ex_bulk_expense ex_expense_items"]
  by (simp add: ex_defs)

section \<open>Restoring stock on delete (C8)\<close>

text \<open>
  C8. A delete request with restoration, for a sale that exists and that the principal
  may delete, succeeds and removes the sale. If some product row has the sale's
  product name and category, the lookup finds one (the first such row in the store's
  order), every row with that row's id gets the found quantity plus the sale's
  quantity, and all other rows stay as they are; if no row matches, the inventory is
  unchanged.
\<close>

theorem delete_sale_restore:
  assumes "sales_find_unique d sale_id = Some s"
    and "u_role u = ''admin'' \<or> s_sold_by s = u_id u"
  shows "fst (delete_sale d sale_id True u) = Inr ()
    \<and> sales (snd (delete_sale d sale_id True u)) = filter (\<lambda>x. s_id x \<noteq> sale_id) (sales d)
    \<and> (\<forall>p. inventory_find_first d (s_product_name s) (s_category s) = Some p \<longrightarrow>
          p \<in> set (inventory d) \<and> p_product_name p = s_product_name s
          \<and> p_category p = s_category s
          \<and> inventory (snd (delete_sale d sale_id True u))
              = map (\<lambda>r. if p_id r = p_id p
                          then r\<lparr>p_quantity := p_quantity p + s_quantity s\<rparr> else r)
                  (inventory d))
    \<and> ((\<exists>p \<in> set (inventory d). p_product_name p = s_product_name s
                                  \<and> p_category p = s_category s)
          \<longrightarrow> inventory_find_first d (s_product_name s) (s_category s) \<noteq> None)
    \<and> (\<not> (\<exists>p \<in> set (inventory d). p_product_name p = s_product_name s
                                  \<and> p_category p = s_category s)
          \<longrightarrow> inventory (snd (delete_sale d sale_id True u)) = inventory d)"
proof (cases "inventory_find_first d (s_product_name s) (s_category s)")
  case None
  then have no_match: "\<not> (\<exists>p \<in> set (inventory d). p_product_name p = s_product_name s
                                  \<and> p_category p = s_category s)"
    by (auto simp: inventory_find_first_def find_None_iff)
  from assms None have "delete_sale d sale_id True u
      = (Inr (), d\<lparr>sales := filter (\<lambda>x. s_id x \<noteq> sale_id) (sales d)\<rparr>)"
    by (auto simp: delete_sale_def sales_delete_def Let_def)
  with None no_match show ?thesis by simp
next
  case (Some p)
  then have found: "p \<in> set (inventory d)" "p_product_name p = s_product_name s"
      "p_category p = s_category s"
    by (auto simp: inventory_find_first_def dest: find_Some_member)
  let ?d1 = "inventory_update_where d (p_id p) (p_quantity p + s_quantity s)"
  have "sales_find_unique ?d1 sale_id = Some s"
    using assms(1) by (simp add: sales_find_unique_def inventory_update_where_def)
  with assms Some have "delete_sale d sale_id True u
      = (Inr (), ?d1\<lparr>sales := filter (\<lambda>x. s_id x \<noteq> sale_id) (sales ?d1)\<rparr>)"
    by (auto simp: delete_sale_def sales_delete_def Let_def)
  moreover have "\<exists>p \<in> set (inventory d). p_product_name p = s_product_name s
                                  \<and> p_category p = s_category s"
    using found by blast
  ultimately show ?thesis
    using Some found by (simp add: inventory_update_where_def)
qed

theorem delete_sale_restore_witness:
  "sales_find_unique ex_db_invoices 1 = Some (ex_sale 1 ''2'' (Some ''INV-000007'') ''1'' None 3)
   \<and> s_sold_by (ex_sale 1 ''2'' (Some ''INV-000007'') ''1'' None 3) = u_id ex_staff
   \<and> fst (delete_sale ex_db_invoices 1 True ex_staff) = Inr ()
   \<and> map s_id (sales (snd (delete_sale ex_db_invoices 1 True ex_staff))) = [2]
   \<and> map p_quantity (inventory (snd (delete_sale ex_db_invoices 1 True ex_staff))) = [6, 5]"
proof -
  have found: "sales_find_unique ex_db_invoices 1
                 = Some (ex_sale 1 ''2'' (Some ''INV-000007'') ''1'' None 3)"
    by (simp add: ex_defs store_defs)
  have owner: "u_role ex_staff = ''admin''
      \<or> s_sold_by (ex_sale 1 ''2'' (Some ''INV-000007'') ''1'' None 3) = u_id ex_staff"
    by (simp add: ex_defs)
  show ?thesis
    using found delete_sale_restore [OF found owner]
    by (simp add: ex_defs store_defs)
qed

section \<open>Material and vendor names (C9)\<close>

text \<open>
  \<open>combined_name\<close> is the string that \<^verbatim>\<open>create_expense\<close> builds for the column
  \<^verbatim>\<open>material_name\<close>, \<open>split_material_name\<close> what \<^verbatim>\<open>get_expenses\<close> makes of that
  column. The two are composed here as functions on strings, with no stored row between
  them: \<^verbatim>\<open>create_expense\<close> reads \<^verbatim>\<open>expense.entry_date\<close> after it has built the
  string and before it stores the row.
\<close>

lemma create_expense_answer: "create_expense d expense u = (Inl InternalServerError, d)"
  by (simp add: create_expense_def ec_entry_date_def)

text \<open>
  C9, as stated, fails for a material name that ends with a space and a dash: "a -"
  does not contain the delimiter, but the string built from it and vendor "x" is split
  into material "a" and vendor "- x".
\<close>

theorem material_trailing_dash_counterexample:
  "\<not> str_in '' - '' ''a -''
   \<and> combined_name ''a -'' ''x'' = ''a - - x''
   \<and> split_material_name (combined_name ''a -'' ''x'') = (''a'', ''- x'')"
  by (simp add: str_in_def split_material_name_def combined_name_def split1_def Let_def)

text \<open>
  C9, amended. For every material name and vendor name, the string built from them
  for storing, split the way reading does, gives back the material name and the vendor
  name whenever the material name neither contains the delimiter " - " nor ends
  with " -".
\<close>

theorem material_vendor_round_trip:
  assumes "\<not> str_in '' - '' material_name"
    and "\<not> suffix '' -'' material_name"
  shows "split_material_name (combined_name material_name vendor_name)
           = (material_name, vendor_name)"
  using str_find_combined [OF assms, of vendor_name]
  by (simp add: combined_name_def split_material_name_def str_in_def split1_def Let_def)

theorem material_vendor_round_trip_witness:
  "\<not> str_in '' - '' ''Oak-wood'' \<and> \<not> suffix '' -'' ''Oak-wood''
   \<and> split_material_name (combined_name ''Oak-wood'' ''Acme - Sons'')
       = (''Oak-wood'', ''Acme - Sons'')"
proof -
  have no_delim: "\<not> str_in '' - '' ''Oak-wood''"
    by (simp add: str_in_def)
  have no_tail: "\<not> suffix '' -'' ''Oak-wood''"
    by (simp add: suffix_def)
  show ?thesis
    using no_delim no_tail material_vendor_round_trip [OF no_delim no_tail, of "''Acme - Sons''"]
    by simp
qed

section \<open>Frame of an update (C10)\<close>

text \<open>
  The dictionary that \<^verbatim>\<open>update_sale\<close> builds has no entry for the id, the cost
  price, the product name, the category, the invoice number, the owner or the creation
  time of the row, whatever the request holds and whatever the read of
  \<^verbatim>\<open>sale.entry_date\<close> would give.
\<close>

lemma update_data_frame:
  "s_id (update_data upd entry_date existing_sale row) = s_id row
   \<and> s_cost_price (update_data upd entry_date existing_sale row) = s_cost_price row
   \<and> s_product_name (update_data upd entry_date existing_sale row) = s_product_name row
   \<and> s_category (update_data upd entry_date existing_sale row) = s_category row
   \<and> s_invoice_no (update_data upd entry_date existing_sale row) = s_invoice_no row
   \<and> s_sold_by (update_data upd entry_date existing_sale row) = s_sold_by row
   \<and> s_created_at (update_data upd entry_date existing_sale row) = s_created_at row"
  by (simp add: update_data_def)

text \<open>
  A request for a sale that exists, by a principal who may edit it, is answered with
  status 500 at the read of \<^verbatim>\<open>sale.entry_date\<close>, before \<^verbatim>\<open>db.sales.update\<close>;
  the other requests are refused before that. So no request writes to the store.
\<close>

lemma update_sale_store: "snd (update_sale d sale_id upd u) = d"
  by (simp add: update_sale_def su_entry_date_def split: option.splits)

text \<open>
  C10. Whatever \<^verbatim>\<open>update_sale\<close> answers, the inventory and the expenses are as
  before, and the sales table has the same rows in the same places: a row with another
  id is unchanged, and the targeted row keeps its id, cost price snapshot, product
  name, category, invoice number, owner and creation time. The dictionary of the
  update leaves these fields of a row as they are.
\<close>

theorem update_sale_frame:
  "inventory (snd (update_sale d sale_id upd u)) = inventory d
   \<and> expenses (snd (update_sale d sale_id upd u)) = expenses d
   \<and> list_all2
        (\<lambda>s s'. (s_id s \<noteq> sale_id \<longrightarrow> s' = s)
               \<and> s_id s' = s_id s
               \<and> s_cost_price s' = s_cost_price s
               \<and> s_product_name s' = s_product_name s
               \<and> s_category s' = s_category s
               \<and> s_invoice_no s' = s_invoice_no s
               \<and> s_sold_by s' = s_sold_by s
               \<and> s_created_at s' = s_created_at s)
        (sales d) (sales (snd (update_sale d sale_id upd u)))
   \<and> s_cost_price (update_data upd entry_date existing_sale row) = s_cost_price row
   \<and> s_product_name (update_data upd entry_date existing_sale row) = s_product_name row
   \<and> s_category (update_data upd entry_date existing_sale row) = s_category row
   \<and> s_invoice_no (update_data upd entry_date existing_sale row) = s_invoice_no row
   \<and> s_sold_by (update_data upd entry_date existing_sale row) = s_sold_by row"
  by (simp add: update_sale_store update_data_frame list.rel_refl)

theorem update_sale_frame_witness:
  "fst (update_sale ex_db_two_sales 1 ex_sales_update ex_staff) = Inl InternalServerError
   \<and> map s_quantity (sales (snd (update_sale ex_db_two_sales 1 ex_sales_update ex_staff)))
       = [1, 1]
   \<and> map s_cost_price (sales (snd (update_sale ex_db_two_sales 1 ex_sales_update ex_staff)))
       = [60, 60]
   \<and> map s_edited (sales (snd (update_sale ex_db_two_sales 1 ex_sales_update ex_staff)))
       = [False, False]
   \<and> map p_quantity (inventory (snd (update_sale ex_db_two_sales 1 ex_sales_update ex_staff)))
       = [5, 5]"
  using update_sale_frame [of ex_db_two_sales 1 ex_sales_update ex_staff]
  by (simp add: update_sale_def ex_defs store_defs entry_date_defs)

end
